theory Spec2Isabelle
  imports Complex_Main
begin

section \<open>Python values used by FreeSwapP2P\<close>

text \<open>
  Exceptions are values. \<open>WalletError\<close> stands for any exception raised inside the
  wallet library (iota_sdk); its argument is the text \<open>str(e)\<close>.
\<close>

datatype pyexn =
    ZeroDivisionError
  | IndexError
  | OverflowError
  | ValueError
  | WalletError string

fun exn_text :: "pyexn \<Rightarrow> string" where
  "exn_text ZeroDivisionError = ''float division by zero''"
| "exn_text IndexError = ''list index out of range''"
| "exn_text OverflowError = ''int too large to convert to float''"
| "exn_text ValueError = ''invalid literal for int()''"
| "exn_text (WalletError msg) = msg"

subsection \<open>Binary64 floating point\<close>

text \<open>
  A Python \<open>float\<close> is an IEEE-754 binary64 number. A finite one is modelled by the
  rational number it denotes, and every arithmetic operation is the exact operation
  followed by rounding to the nearest binary64 number, ties to even (\<open>to_double\<close>):
  53 significant bits, subnormal numbers below \<open>2^-1022\<close>. Infinities and NaN are not
  values of the model; the places where the code turns an overflow into an exception
  (\<open>float(int)\<close>, \<open>round(float)\<close>) test for it explicitly.
\<close>

type_synonym double = rat

text \<open>
  \<open>bit_length n\<close> is the number of binary digits of a positive integer, as Python's
  \<open>int.bit_length\<close>.
\<close>

function bit_length :: "int \<Rightarrow> int" where
  "bit_length n = (if n \<le> 0 then 0 else 1 + bit_length (n div 2))"
  by pat_completeness auto
termination
  by (relation "measure nat") auto

declare bit_length.simps [simp del]

definition pow2 :: "int \<Rightarrow> rat" where
  "pow2 e = (if 0 \<le> e then 2 ^ nat e else 1 / 2 ^ nat (- e))"

text \<open>\<open>ilog2 x\<close> is the binary exponent \<open>\<lfloor>log\<^sub>2 x\<rfloor>\<close> of a positive rational.\<close>

definition ilog2 :: "rat \<Rightarrow> int" where
  "ilog2 x = (case quotient_of x of (p, q) \<Rightarrow>
     (let e0 = bit_length p - bit_length q
      in if pow2 e0 \<le> x then e0 else e0 - 1))"

definition round_half_even :: "rat \<Rightarrow> int" where
  "round_half_even x = (let f = \<lfloor>x\<rfloor>; d = x - of_int f
     in if d < 1 / 2 then f else if 1 / 2 < d then f + 1 else if even f then f else f + 1)"

definition to_double :: "rat \<Rightarrow> double" where
  "to_double x = (if x = 0 then 0
     else (let e = max (ilog2 \<bar>x\<bar> - 52) (- 1074)
           in of_int (round_half_even (x / pow2 e)) * pow2 e))"

definition fadd :: "double \<Rightarrow> double \<Rightarrow> double" where
  "fadd x y = to_double (x + y)"

definition fsub :: "double \<Rightarrow> double \<Rightarrow> double" where
  "fsub x y = to_double (x - y)"

definition fmul :: "double \<Rightarrow> double \<Rightarrow> double" where
  "fmul x y = to_double (x * y)"

definition fdiv :: "double \<Rightarrow> double \<Rightarrow> pyexn + double" where
  "fdiv x y = (if y = 0 then Inl ZeroDivisionError else Inr (to_double (x / y)))"

text \<open>The largest finite binary64 number is just below \<open>2^1024\<close>.\<close>

definition overflows :: "rat \<Rightarrow> bool" where
  "overflows x = (2 ^ 1024 \<le> \<bar>to_double x\<bar>)"

text \<open>\<open>float(n)\<close> for a Python int: correctly rounded, OverflowError beyond the range.\<close>

definition float_of_int :: "int \<Rightarrow> pyexn + double" where
  "float_of_int n = (if overflows (of_int n) then Inl OverflowError else Inr (to_double (of_int n)))"

text \<open>
  \<open>round(x, nd)\<close> for a float: the exact value is rounded to \<open>nd\<close> decimals, ties to
  even, and the decimal result is converted back to the nearest binary64 number.
\<close>

definition py_round :: "double \<Rightarrow> nat \<Rightarrow> double" where
  "py_round x nd = to_double (of_int (round_half_even (x * 10 ^ nd)) / 10 ^ nd)"

text \<open>\<open>int(x)\<close> for a finite float truncates towards zero.\<close>

definition int_of_float :: "double \<Rightarrow> int" where
  "int_of_float x = (if 0 \<le> x then \<lfloor>x\<rfloor> else \<lceil>x\<rceil>)"

text \<open>
  The builtin \<open>sum\<close> starts from the int \<open>0\<close> and adds from left to right. Up to
  CPython 3.11 each addition is a plain float addition (\<open>py_sum\<close>); from 3.12 on a
  compensation term is carried along (Neumaier) and added at the end
  (\<open>py_sum_compensated\<close>).
\<close>

definition py_sum :: "double list \<Rightarrow> double" where
  "py_sum xs = foldl fadd 0 xs"



section \<open>IotaWallet.py: the automated responder\<close>

subsection \<open>send_transaction_any\<close>

text \<open>
  The wallet library is outside the repository. What it does when asked to build and
  send an output is an input of the model: it returns a transaction object or raises.
  A transaction object is known by the attributes \<open>send\<close> reads from it: three
  identifiers, each absent or a string, and \<open>amount\<close>, absent or an integer.
\<close>

record tx =
  tx_id :: "string option"
  tx_transactionId :: "string option"
  tx_hash :: "string option"
  tx_amount :: "int option"

text \<open>
  Both \<open>send_transaction\<close> and \<open>send_transaction_any\<close> return the transaction on
  success and a dict on error; a dict has none of the attributes above.
\<close>

datatype send_result =
    Transaction tx
  | ErrorDict "(string \<times> string) list"

text \<open>
  \<open>send_transaction_any\<close>: the whole body is inside \<open>try\<close>, and
  \<open>except Exception as e\<close> returns the dict with the error text.
\<close>

definition send_transaction_any :: "(pyexn + tx) \<Rightarrow> pyexn + send_result" where
  "send_transaction_any library =
     (case library of
        Inr t \<Rightarrow> Inr (Transaction t)
      | Inl e \<Rightarrow> Inr (ErrorDict [(''amount'', ''0''), (''timestamp'', ''0''), (''error'', exn_text e)]))"

subsection \<open>The response schedule\<close>

text \<open>
  Lines 677 to 685 of \<open>responder_transaction_with_self_sent_adjustment\<close>. The first
  argument is the implementation of the builtin \<open>sum\<close>. \<open>[x] * divisor\<close> is empty for
  \<open>divisor \<le> 0\<close>, and \<open>response_amounts[-1]\<close> raises IndexError on the empty list.
  The division converts \<open>divisor\<close> to a float; a list of \<open>divisor\<close> elements has to fit
  in memory, which keeps \<open>divisor\<close> far below the range where that conversion overflows.
\<close>

definition response_schedule :: "(double list \<Rightarrow> double) \<Rightarrow> double \<Rightarrow> int \<Rightarrow> pyexn + double list" where
  "response_schedule summ max_response_amount divisor =
     (case fdiv max_response_amount (to_double (of_int divisor)) of
        Inl e \<Rightarrow> Inl e
      | Inr q \<Rightarrow>
          (let per_response = py_round q 8;
               response_amounts = replicate (nat divisor) per_response;
               diff = fsub max_response_amount (summ response_amounts)
           in if 0 < \<bar>diff\<bar>
              then (if response_amounts = [] then Inl IndexError
                    else Inr (response_amounts[length response_amounts - 1 :=
                                fadd (last response_amounts) diff]))
              else Inr response_amounts))"

subsection \<open>The polling loop\<close>

text \<open>The values fixed before the loop starts.\<close>

record responder_config =
  expected_sender_address :: string
  starting_balance :: double
  max_amount_received :: double
  response_amounts :: "double list"

text \<open>The variables the loop updates.\<close>

record responder_state =
  total_received :: double
  total_responded :: double
  idx :: nat

text \<open>
  What the outside world does in one poll cycle: the available balance that
  \<open>get_available_balances(get_my_balance(...))\<close> reports after the sleep, and what the
  wallet library would do with a reply payment in this cycle.
\<close>

record observation =
  current_balance :: double
  library_send :: "pyexn + tx"

text \<open>What a poll cycle does to the outside world, in order.\<close>

datatype effect =
    PrintNetReceived string double
  | CallSendTransactionAny string int
  | PrintResponseSent send_result
  | PrintErrorSending pyexn
  | PrintAllSent
  | PrintMaxReached

datatype control = Continue | Break

definition net_increment :: "double \<Rightarrow> double \<Rightarrow> double \<Rightarrow> double \<Rightarrow> double" where
  "net_increment current starting received responded =
     fsub current (fsub (fadd starting received) responded)"

text \<open>
  The \<open>if total_received >= max_amount_received: break\<close> at the end of the loop body.
\<close>

definition cap_check :: "responder_config \<Rightarrow> effect list \<Rightarrow> responder_state \<Rightarrow> effect list \<times> control \<times> responder_state" where
  "cap_check cfg effs s =
     (if max_amount_received cfg \<le> total_received s
      then (effs @ [PrintMaxReached], Break, s)
      else (effs, Continue, s))"

text \<open>
  The body of the \<open>while\<close> loop, lines 692 to 724. The \<open>try\<close> block evaluates
  \<open>int(send_amt * 1_000_000)\<close>, which cannot fail on a finite float, and calls
  \<open>send_transaction_any\<close>; the \<open>except\<close> branch logs and executes \<open>continue\<close>, which
  skips the cap check at the end of the body.
\<close>

definition poll_cycle :: "responder_config \<Rightarrow> observation \<Rightarrow> responder_state \<Rightarrow> effect list \<times> control \<times> responder_state" where
  "poll_cycle cfg ob s =
     (let net = net_increment (current_balance ob) (starting_balance cfg)
                  (total_received s) (total_responded s)
      in if 0 < net \<or> total_responded s = 0
         then
           (let s1 = s\<lparr>total_received := fadd (total_received s) net\<rparr>;
                log1 = [PrintNetReceived (expected_sender_address cfg) net]
            in if idx s < length (response_amounts cfg)
               then
                 (let send_amt = response_amounts cfg ! idx s;
                      custom_amount = int_of_float (fmul send_amt 1000000);
                      call = [CallSendTransactionAny (expected_sender_address cfg) custom_amount]
                  in case send_transaction_any (library_send ob) of
                       Inr r \<Rightarrow>
                         cap_check cfg (log1 @ call @ [PrintResponseSent r])
                           (s1\<lparr>total_responded := fadd (total_responded s1) send_amt,
                               idx := idx s1 + 1\<rparr>)
                     | Inl e \<Rightarrow> (log1 @ call @ [PrintErrorSending e], Continue, s1))
               else (log1 @ [PrintAllSent], Break, s1))
         else cap_check cfg [] s)"

text \<open>
  A run of the loop over the observations the world supplies, one per cycle. The loop
  either leaves the \<open>while\<close> (\<open>Completed\<close>) or is still polling when the observations
  run out (\<open>Polling\<close>); both carry the effects so far and the state reached.
\<close>

datatype run =
    Completed "effect list" responder_state
  | Polling "effect list" responder_state

fun after_effects :: "effect list \<Rightarrow> run \<Rightarrow> run" where
  "after_effects effs (Completed effs' s) = Completed (effs @ effs') s"
| "after_effects effs (Polling effs' s) = Polling (effs @ effs') s"

fun responder_loop :: "responder_config \<Rightarrow> observation list \<Rightarrow> responder_state \<Rightarrow> run" where
  "responder_loop cfg [] s =
     (if total_received s < max_amount_received cfg then Polling [] s else Completed [] s)"
| "responder_loop cfg (ob # obs) s =
     (if total_received s < max_amount_received cfg
      then (case poll_cycle cfg ob s of
              (effs, Break, s') \<Rightarrow> Completed effs s'
            | (effs, Continue, s') \<Rightarrow> after_effects effs (responder_loop cfg obs s'))
      else Completed [] s)"

definition initial_state :: responder_state where
  "initial_state = \<lparr>total_received = 0, total_responded = 0, idx = 0\<rparr>"



fun is_send_error :: "effect \<Rightarrow> bool" where
  "is_send_error (PrintErrorSending e) = True"
| "is_send_error e = False"

section \<open>IotaWallet.py: helpers called by the HTTP layer\<close>

subsection \<open>send_transaction\<close>

text \<open>
  \<open>send_transaction\<close>: as \<open>send_transaction_any\<close>, the library calls are inside
  \<open>try\<close> and \<open>except Exception\<close> returns a dict, here without the error text.
\<close>

definition send_transaction :: "(pyexn + tx) \<Rightarrow> pyexn + send_result" where
  "send_transaction library =
     (case library of
        Inr t \<Rightarrow> Inr (Transaction t)
      | Inl e \<Rightarrow> Inr (ErrorDict [(''amount'', ''0''), (''timestamp'', ''0'')]))"

subsection \<open>Balance objects and parse_available_balance\<close>

text \<open>
  The value handed to \<open>_parse_balance_to_micros\<close> is the int \<open>0\<close> or an object of the
  wallet library. An object is known by what \<open>str\<close> makes of it: a string, or an
  exception. (Floats are not among the values \<open>balance\<close> passes on.)
\<close>

datatype raw =
    RawInt int
  | RawObj "pyexn + string"

definition digit_char :: "nat \<Rightarrow> char" where
  "digit_char d = char_of (48 + d)"

fun digits_of_nat :: "nat \<Rightarrow> string" where
  "digits_of_nat n =
     (if n < 10 then [digit_char n] else digits_of_nat (n div 10) @ [digit_char (n mod 10)])"

declare digits_of_nat.simps [simp del]

definition py_str_int :: "int \<Rightarrow> string" where
  "py_str_int n = (if n < 0 then CHR ''-'' # digits_of_nat (nat (- n)) else digits_of_nat (nat n))"

fun py_str :: "raw \<Rightarrow> pyexn + string" where
  "py_str (RawInt n) = Inr (py_str_int n)"
| "py_str (RawObj r) = r"

fun py_truthy :: "raw \<Rightarrow> bool" where
  "py_truthy (RawInt n) = (n \<noteq> 0)"
| "py_truthy (RawObj r) = True"

text \<open>
  \<open>get_my_balance\<close> returns the balance object of \<open>account.sync\<close>, or \<open>0\<close> when the
  library raises.
\<close>

definition get_my_balance :: "(pyexn + string) \<Rightarrow> raw" where
  "get_my_balance library = (case library of Inr b \<Rightarrow> RawObj (Inr b) | Inl e \<Rightarrow> RawInt 0)"

text \<open>
  The regular expression \<open>available='(\d+)'\<close>. Strings are sequences of 8-bit
  characters, among which \<open>\d\<close> matches the ten ASCII digits only. \<open>\d+\<close> is greedy and
  must be followed by the closing quote, so a match at a position takes the whole run
  of digits there; \<open>re.search\<close> returns the leftmost position that matches.
\<close>

definition is_digit :: "char \<Rightarrow> bool" where
  "is_digit c = (c \<in> set ''0123456789'')"

definition available_prefix :: string where
  "available_prefix = ''available='' @ [CHR 0x27]"

definition match_available_here :: "string \<Rightarrow> string option" where
  "match_available_here s =
     (if take (length available_prefix) s = available_prefix
      then (let r = drop (length available_prefix) s;
                ds = takeWhile is_digit r;
                rest = dropWhile is_digit r
            in if ds \<noteq> [] \<and> take 1 rest = [CHR 0x27] then Some ds else None)
      else None)"

fun re_search_available :: "string \<Rightarrow> string option" where
  "re_search_available [] = None"
| "re_search_available (c # cs) =
     (case match_available_here (c # cs) of
        Some ds \<Rightarrow> Some ds
      | None \<Rightarrow> re_search_available cs)"

text \<open>
  \<open>int(digits)\<close>. CPython refuses decimal strings longer than
  \<open>sys.get_int_max_str_digits()\<close> with ValueError; the limit is a parameter here
  (4300 by default, 0 for no limit).
\<close>

definition int_of_digits :: "nat \<Rightarrow> string \<Rightarrow> pyexn + int" where
  "int_of_digits max_str_digits ds =
     (if max_str_digits \<noteq> 0 \<and> max_str_digits < length ds then Inl ValueError
      else Inr (foldl (\<lambda>a c. 10 * a + (of_char c - 48)) 0 ds))"

definition parse_available_balance :: "nat \<Rightarrow> string \<Rightarrow> int" where
  "parse_available_balance max_str_digits balance_str =
     (case re_search_available balance_str of
        None \<Rightarrow> 0
      | Some ds \<Rightarrow> (case int_of_digits max_str_digits ds of Inl e \<Rightarrow> 0 | Inr n \<Rightarrow> n))"

text \<open>
  \<open>get_my_address_instanced\<close> with an open wallet: the first address of the account,
  or the empty string when there is none or the library raises.
\<close>

definition get_my_address_instanced :: "(pyexn + string list) \<Rightarrow> string" where
  "get_my_address_instanced library =
     (case library of Inr (a # addrs) \<Rightarrow> a | Inr [] \<Rightarrow> [] | Inl e \<Rightarrow> [])"

section \<open>FreeSwapP2P.py: the HTTP layer\<close>

text \<open>
  A request ends with a JSON body (\<open>Inr\<close>), with an \<open>HTTPException\<close> carrying status and
  detail, or with an exception nobody handles, which the framework answers with 500.
\<close>

datatype failure =
    HTTPException nat string
  | Unhandled pyexn

record session =
  sess_wallet :: nat
  sess_account_name :: string
  sess_pin :: string
  sess_password :: string

type_synonym sessions = "string \<rightharpoonup> session"

subsection \<open>String operations\<close>

definition startswith :: "string \<Rightarrow> string \<Rightarrow> bool" where
  "startswith s p = (take (length p) s = p)"

text \<open>The characters below 256 for which \<open>str.isspace\<close> holds.\<close>

definition py_isspace :: "char \<Rightarrow> bool" where
  "py_isspace c = ((of_char c :: int) \<in> set [9, 10, 11, 12, 13, 28, 29, 30, 31, 32, 133, 160])"

text \<open>\<open>str.split()\<close> without argument: the maximal runs of non-whitespace.\<close>

fun split_ws :: "string \<Rightarrow> string \<Rightarrow> string list" where
  "split_ws cur [] = (if cur = [] then [] else [cur])"
| "split_ws cur (c # cs) =
     (if py_isspace c
      then (if cur = [] then split_ws [] cs else cur # split_ws [] cs)
      else split_ws (cur @ [c]) cs)"

definition py_split :: "string \<Rightarrow> string list" where
  "py_split s = split_ws [] s"

subsection \<open>Sessions\<close>

text \<open>
  \<open>_auth\<close>. \<open>authorization.split()[1]\<close> raises IndexError when the header has nothing
  after \<open>Bearer\<close>; nobody catches it.
\<close>

definition auth :: "sessions \<Rightarrow> string option \<Rightarrow> failure + session" where
  "auth SESSIONS authorization =
     (case authorization of
        None \<Rightarrow> Inl (HTTPException 401 ''Missing or invalid Authorization header'')
      | Some a \<Rightarrow>
          (if a = [] \<or> \<not> startswith a ''Bearer ''
           then Inl (HTTPException 401 ''Missing or invalid Authorization header'')
           else (case py_split a of
                   w # token # ws \<Rightarrow>
                     (case SESSIONS token of
                        None \<Rightarrow> Inl (HTTPException 401 ''Invalid or expired session'')
                      | Some sess \<Rightarrow> Inr sess)
                 | _ \<Rightarrow> Inl (Unhandled IndexError))))"

text \<open>
  \<open>secrets.token_urlsafe(32)\<close>: 32 random bytes in URL-safe base64 without padding,
  that is 43 characters of the alphabet below. The random draw is an input of \<open>login\<close>.
\<close>

definition urlsafe_alphabet :: string where
  "urlsafe_alphabet =
     ''ABCDEFGHIJKLMNOPQRSTUVWXYZabcdefghijklmnopqrstuvwxyz0123456789-_''"

definition token_urlsafe :: "string \<Rightarrow> bool" where
  "token_urlsafe t = (length t = 43 \<and> list_all (\<lambda>c. c \<in> set urlsafe_alphabet) t)"

record login_request =
  account_name :: string
  pin :: string
  password :: string

text \<open>
  \<open>login\<close>. \<open>SignInToAccount\<close> belongs to the wallet side; its result is an input:
  a wallet handle with the list \<open>recover_accounts\<close> returned (each account as \<open>repr\<close>
  prints it), or \<open>(None, None)\<close>. \<open>not account\<close> holds for \<open>None\<close> and for the empty
  list. The answer carries \<open>str(account)\<close>, the list as Python prints it.
\<close>

fun join_comma :: "string list \<Rightarrow> string" where
  "join_comma [] = []"
| "join_comma [x] = x"
| "join_comma (x # y # zs) = x @ '', '' @ join_comma (y # zs)"

definition py_str_list :: "string list \<Rightarrow> string" where
  "py_str_list xs = ''['' @ join_comma xs @ '']''"

definition login :: "login_request \<Rightarrow> nat option \<times> string list option \<Rightarrow> string \<Rightarrow> sessions
    \<Rightarrow> failure + sessions \<times> string \<times> string" where
  "login body signin token SESSIONS =
     (case signin of
        (Some w, Some (a # accounts)) \<Rightarrow>
          Inr (SESSIONS(token \<mapsto>
                 \<lparr>sess_wallet = w, sess_account_name = account_name body,
                  sess_pin = pin body, sess_password = password body\<rparr>),
               token, py_str_list (a # accounts))
      | _ \<Rightarrow> Inl (HTTPException 401 ''Invalid credentials or account not found''))"

text \<open>\<open>logout\<close>: \<open>_SESSIONS.pop(token, None)\<close>, then \<open>{"ok": True}\<close>.\<close>

definition logout :: "string option \<Rightarrow> sessions \<Rightarrow> failure + sessions" where
  "logout authorization SESSIONS =
     (case authorization of
        None \<Rightarrow> Inr SESSIONS
      | Some a \<Rightarrow>
          (if a \<noteq> [] \<and> startswith a ''Bearer ''
           then (case py_split a of
                   w # token # ws \<Rightarrow> Inr (SESSIONS(token := None))
                 | _ \<Rightarrow> Inl (Unhandled IndexError))
           else Inr SESSIONS))"

text \<open>
  The session maps the process can hold: the module starts with the empty dict, and
  only \<open>login\<close> and \<open>logout\<close> touch it.
\<close>

inductive reachable :: "sessions \<Rightarrow> bool" where
  start: "reachable Map.empty"
| after_login: "reachable S \<Longrightarrow> token_urlsafe token \<Longrightarrow>
     login body signin token S = Inr (S', tok, acct) \<Longrightarrow> reachable S'"
| after_logout: "reachable S \<Longrightarrow> logout authorization S = Inr S' \<Longrightarrow> reachable S'"

text \<open>
  What can happen to the session map afterwards, as long as no login draws the token
  \<open>t\<close> again: logins with other tokens, and logouts. (The other routes do not write
  to the map.)
\<close>

inductive later_without :: "string \<Rightarrow> sessions \<Rightarrow> sessions \<Rightarrow> bool" for t where
  same: "later_without t S S"
| then_login: "later_without t S S' \<Longrightarrow> token_urlsafe token \<Longrightarrow> token \<noteq> t \<Longrightarrow>
     login body signin token S' = Inr (S'', tok, acct) \<Longrightarrow> later_without t S S''"
| then_logout: "later_without t S S' \<Longrightarrow> logout authorization S' = Inr S'' \<Longrightarrow>
     later_without t S S''"

subsection \<open>Utilities\<close>

definition bech32_charset :: string where
  "bech32_charset = ''qpzry9x8gf2tvdw0s3jn54khce6mua7l''"

text \<open>
  \<open>_SMR_ADDR_RE.match\<close> for \<open>^smr1[qpzry9x8gf2tvdw0s3jn54khce6mua7l]{59}$\<close>. In Python
  \<open>$\<close> matches at the end of the string and also just before a newline that ends it.
\<close>

definition smr_addr_match :: "string \<Rightarrow> bool" where
  "smr_addr_match s =
     (take 4 s = ''smr1''
      \<and> length (take 59 (drop 4 s)) = 59
      \<and> list_all (\<lambda>c. c \<in> set bech32_charset) (take 59 (drop 4 s))
      \<and> (drop 63 s = [] \<or> drop 63 s = [CHR 0x0A]))"

text \<open>
  \<open>_parse_balance_to_micros\<close>. The \<open>try\<close> block is \<open>str\<close>, \<open>parse_available_balance\<close>,
  \<open>float\<close>, the multiplication and \<open>round\<close>; the product of a finite float overflows to
  infinity silently, and \<open>round\<close> of infinity raises OverflowError. The \<open>except\<close> branch
  returns \<open>int(round(raw))\<close> for a number and \<open>0\<close> otherwise.
\<close>

definition micros_try :: "nat \<Rightarrow> raw \<Rightarrow> pyexn + int" where
  "micros_try max_str_digits raw =
     (case py_str raw of
        Inl e \<Rightarrow> Inl e
      | Inr s \<Rightarrow>
          (case float_of_int (parse_available_balance max_str_digits s) of
             Inl e \<Rightarrow> Inl e
           | Inr val \<Rightarrow>
               (if overflows (val * 1000000) then Inl OverflowError
                else Inr (round_half_even (fmul val 1000000)))))"

definition parse_balance_to_micros :: "nat \<Rightarrow> raw \<Rightarrow> int" where
  "parse_balance_to_micros max_str_digits raw =
     (case micros_try max_str_digits raw of
        Inr v \<Rightarrow> v
      | Inl e \<Rightarrow> (case raw of RawInt n \<Rightarrow> n | RawObj r \<Rightarrow> 0))"

subsection \<open>Routes\<close>

text \<open>The calls a handler makes into the wallet helpers, in order.\<close>

datatype wallet_call =
    CallGetMyBalance nat string
  | CallGetMyAddress nat string
  | CallSendTransaction nat string string int

text \<open>
  \<open>balance\<close>: \<open>raw = get_my_balance(...) or 0\<close>. Nothing in the \<open>try\<close> block raises, so
  the \<open>except\<close> branch with status 500 has no way in.
\<close>

definition balance :: "nat \<Rightarrow> session \<Rightarrow> (pyexn + string) \<Rightarrow> wallet_call list \<times> (failure + int)" where
  "balance max_str_digits sess library =
     ([CallGetMyBalance (sess_wallet sess) (sess_pin sess)],
      (let r = get_my_balance library;
           raw = (if py_truthy r then r else RawInt 0)
       in Inr (parse_balance_to_micros max_str_digits raw)))"

text \<open>\<open>address\<close>: an empty address is answered with 404, which the handler re-raises.\<close>

definition address :: "session \<Rightarrow> (pyexn + string list) \<Rightarrow> wallet_call list \<times> (failure + string)" where
  "address sess library =
     ([CallGetMyAddress (sess_wallet sess) (sess_pin sess)],
      (let addr = get_my_address_instanced library
       in if addr = [] then Inl (HTTPException 404 ''Address not found'') else Inr addr))"

record send_request =
  recipient :: string
  amount :: int

record send_response =
  txid :: "string option"
  sent_amount :: int

text \<open>\<open>getattr(tx, name, None)\<close> and the \<open>or\<close> between such values.\<close>

fun getattr_str :: "send_result \<Rightarrow> (tx \<Rightarrow> string option) \<Rightarrow> string option" where
  "getattr_str (Transaction t) field = field t"
| "getattr_str (ErrorDict d) field = None"

definition py_or :: "string option \<Rightarrow> string option \<Rightarrow> string option" where
  "py_or a b = (case a of Some (c # cs) \<Rightarrow> a | _ \<Rightarrow> b)"

fun getattr_amount :: "send_result \<Rightarrow> int \<Rightarrow> int" where
  "getattr_amount (Transaction t) dflt = (case tx_amount t of Some v \<Rightarrow> v | None \<Rightarrow> dflt)"
| "getattr_amount (ErrorDict d) dflt = dflt"

text \<open>\<open>send\<close>, the handler behind \<open>POST /api/send\<close> once the session is known.\<close>

definition send :: "send_request \<Rightarrow> session \<Rightarrow> (pyexn + tx) \<Rightarrow> wallet_call list \<times> (failure + send_response)" where
  "send body sess library =
     (if amount body \<le> 0
      then ([], Inl (HTTPException 400 ''Amount must be > 0 (micro-SMR)''))
      else if \<not> smr_addr_match (recipient body)
      then ([], Inl (HTTPException 400 ''Invalid recipient address format''))
      else ([CallSendTransaction (sess_wallet sess) (sess_pin sess) (recipient body) (amount body)],
            (case send_transaction library of
               Inl e \<Rightarrow> Inl (HTTPException 500 (''Transaction failed: '' @ exn_text e))
             | Inr r \<Rightarrow>
                 Inr \<lparr>txid = py_or (py_or (getattr_str r tx_id) (getattr_str r tx_transactionId))
                               (getattr_str r tx_hash),
                      sent_amount = getattr_amount r (amount body)\<rparr>)))"

text \<open>
  The three authenticated routes as the framework runs them: the dependency \<open>_auth\<close>
  first, the handler only when it returned a session.
\<close>

definition api_balance :: "nat \<Rightarrow> sessions \<Rightarrow> string option \<Rightarrow> (pyexn + string)
    \<Rightarrow> wallet_call list \<times> (failure + int)" where
  "api_balance max_str_digits SESSIONS authorization library =
     (case auth SESSIONS authorization of
        Inl f \<Rightarrow> ([], Inl f)
      | Inr sess \<Rightarrow> balance max_str_digits sess library)"

definition api_address :: "sessions \<Rightarrow> string option \<Rightarrow> (pyexn + string list)
    \<Rightarrow> wallet_call list \<times> (failure + string)" where
  "api_address SESSIONS authorization library =
     (case auth SESSIONS authorization of
        Inl f \<Rightarrow> ([], Inl f)
      | Inr sess \<Rightarrow> address sess library)"

definition api_send :: "sessions \<Rightarrow> string option \<Rightarrow> send_request \<Rightarrow> (pyexn + tx)
    \<Rightarrow> wallet_call list \<times> (failure + send_response)" where
  "api_send SESSIONS authorization body library =
     (case auth SESSIONS authorization of
        Inl f \<Rightarrow> ([], Inl f)
      | Inr sess \<Rightarrow> send body sess library)"

text \<open>The status line of the answer.\<close>

fun status_code :: "failure + 'a \<Rightarrow> nat" where
  "status_code (Inr r) = 200"
| "status_code (Inl (HTTPException n detail)) = n"
| "status_code (Inl (Unhandled e)) = 500"

section \<open>Properties of binary64 rounding\<close>

text \<open>
  Facts about \<open>to_double\<close> used below: the binary exponent is the right one, integers
  with at most 53 significant bits are not changed by rounding, rounding keeps the
  sign, and it moves a number by at most half a unit in the last place. From the
  last fact follow error bounds for both implementations of \<open>sum\<close> on equal parts.
\<close>

lemma pow2_powi: "pow2 e = 2 powi e"
  by (simp add: pow2_def power_int_def inverse_eq_divide power_one_over)

lemma pow2_pos: "0 < pow2 e"
  by (simp add: pow2_powi)

lemma pow2_add: "pow2 (a + b) = pow2 a * pow2 b"
  by (simp add: pow2_powi power_int_add)

lemma pow2_mono: "a \<le> b \<Longrightarrow> pow2 a \<le> pow2 b"
  by (simp add: pow2_powi power_int_increasing)

lemma pow2_strict_mono: "a < b \<Longrightarrow> pow2 a < pow2 b"
  by (simp add: pow2_powi power_int_strict_increasing)

lemma pow2_nat: "0 \<le> e \<Longrightarrow> pow2 e = of_int (2 ^ nat e)"
  by (simp add: pow2_def)

lemma pow2_split: "pow2 a = pow2 (a - b) * pow2 b"
  using pow2_add [of "a - b" b] by simp

lemma bit_length_bounds:
  "0 < n \<Longrightarrow> 0 < bit_length n \<and> 2 ^ nat (bit_length n - 1) \<le> n \<and> n < 2 ^ nat (bit_length n)"
proof (induction n rule: bit_length.induct)
  case (1 n)
  show ?case
  proof (cases "n div 2 = 0")
    case True
    with \<open>0 < n\<close> have n1: "n = 1" by presburger
    have "bit_length 0 = 0" by (simp add: bit_length.simps)
    then have "bit_length 1 = 1" by (simp add: bit_length.simps [of 1])
    with n1 show ?thesis by simp
  next
    case False
    with \<open>0 < n\<close> have h: "0 < n div 2" by presburger
    let ?b = "bit_length (n div 2)"
    have ih: "0 < ?b \<and> 2 ^ nat (?b - 1) \<le> n div 2 \<and> n div 2 < 2 ^ nat ?b"
      using "1.IH" \<open>0 < n\<close> h by simp
    have bl: "bit_length n = 1 + ?b"
      using \<open>0 < n\<close> by (simp add: bit_length.simps [of n])
    have nb: "nat ?b = Suc (nat (?b - 1))"
      using ih by arith
    have lo: "(2::int) ^ nat ?b \<le> n"
    proof -
      have "(2::int) ^ nat ?b = 2 * 2 ^ nat (?b - 1)" by (subst nb) simp
      also have "\<dots> \<le> 2 * (n div 2)" using ih by simp
      also have "\<dots> \<le> n" by presburger
      finally show ?thesis .
    qed
    have hi: "n < 2 ^ nat (1 + ?b)"
    proof -
      have "n div 2 + 1 \<le> 2 ^ nat ?b" using ih by simp
      then have "2 * (n div 2) + 2 \<le> 2 * 2 ^ nat ?b" by simp
      moreover have "n < 2 * (n div 2) + 2" by presburger
      moreover have "nat (1 + ?b) = Suc (nat ?b)" using ih by arith
      ultimately show ?thesis by simp
    qed
    show ?thesis using bl lo hi ih by simp
  qed
qed

lemma ilog2_bounds:
  assumes "0 < x"
  shows "pow2 (ilog2 x) \<le> x \<and> x < pow2 (ilog2 x + 1)"
proof -
  obtain p q where pq: "quotient_of x = (p, q)" by (cases "quotient_of x")
  have q: "0 < q" using quotient_of_denom_pos [OF pq] .
  have x: "x = of_int p / of_int q" using quotient_of_div [OF pq] .
  have p: "0 < p" using assms x q by (simp add: zero_less_divide_iff)
  let ?bp = "bit_length p" and ?bq = "bit_length q"
  let ?e0 = "?bp - ?bq"
  have bp: "0 < ?bp" "2 ^ nat (?bp - 1) \<le> p" "p < 2 ^ nat ?bp"
    using bit_length_bounds [OF p] by simp_all
  have bq: "0 < ?bq" "2 ^ nat (?bq - 1) \<le> q" "q < 2 ^ nat ?bq"
    using bit_length_bounds [OF q] by simp_all
  have nn: "0 \<le> ?bp - 1" "0 \<le> ?bp" "0 \<le> ?bq - 1" "0 \<le> ?bq"
    using bp(1) bq(1) by simp_all
  have P1: "pow2 (?bp - 1) \<le> of_int p"
  proof -
    have "(of_int (2 ^ nat (?bp - 1)) :: rat) \<le> of_int p"
      using bp(2) by (simp only: of_int_le_iff)
    then show ?thesis by (simp only: pow2_nat [OF nn(1)])
  qed
  have P2: "of_int p < pow2 ?bp"
  proof -
    have "(of_int p :: rat) < of_int (2 ^ nat ?bp)"
      using bp(3) by (simp only: of_int_less_iff)
    then show ?thesis by (simp only: pow2_nat [OF nn(2)])
  qed
  have Q1: "pow2 (?bq - 1) \<le> of_int q"
  proof -
    have "(of_int (2 ^ nat (?bq - 1)) :: rat) \<le> of_int q"
      using bq(2) by (simp only: of_int_le_iff)
    then show ?thesis by (simp only: pow2_nat [OF nn(3)])
  qed
  have Q2: "of_int q < pow2 ?bq"
  proof -
    have "(of_int q :: rat) < of_int (2 ^ nat ?bq)"
      using bq(3) by (simp only: of_int_less_iff)
    then show ?thesis by (simp only: pow2_nat [OF nn(4)])
  qed
  have qpos: "(0::rat) < of_int q" using q by simp
  have lower: "pow2 (?e0 - 1) < x"
  proof -
    have "pow2 (?e0 - 1) * pow2 ?bq = pow2 (?bp - 1)"
      using pow2_add [of "?e0 - 1" ?bq] by (simp add: algebra_simps)
    then have "pow2 (?e0 - 1) * pow2 ?bq \<le> of_int p" using P1 by simp
    moreover have "pow2 (?e0 - 1) * of_int q < pow2 (?e0 - 1) * pow2 ?bq"
      using Q2 pow2_pos [of "?e0 - 1"] by simp
    ultimately have "pow2 (?e0 - 1) * of_int q < of_int p" by simp
    then show ?thesis using qpos x by (simp add: pos_less_divide_eq)
  qed
  have upper: "x < pow2 (?e0 + 1)"
  proof -
    have "pow2 (?e0 + 1) * pow2 (?bq - 1) = pow2 ?bp"
      using pow2_add [of "?e0 + 1" "?bq - 1"] by (simp add: algebra_simps)
    moreover have "pow2 (?e0 + 1) * pow2 (?bq - 1) \<le> pow2 (?e0 + 1) * of_int q"
      using Q1 pow2_pos [of "?e0 + 1"] by simp
    ultimately have "of_int p < pow2 (?e0 + 1) * of_int q" using P2 by simp
    then show ?thesis using qpos x by (simp add: pos_divide_less_eq)
  qed
  show ?thesis
  proof (cases "pow2 ?e0 \<le> x")
    case True
    then have "ilog2 x = ?e0" by (simp add: ilog2_def pq Let_def)
    with True upper show ?thesis by simp
  next
    case False
    then have "ilog2 x = ?e0 - 1" by (simp add: ilog2_def pq Let_def)
    with False lower show ?thesis by simp
  qed
qed

lemma round_half_even_of_int: "round_half_even (of_int i) = i"
  by (simp add: round_half_even_def)

lemma round_half_even_ge_floor: "\<lfloor>x\<rfloor> \<le> round_half_even x"
  by (simp add: round_half_even_def Let_def)

lemma to_double_exact:
  fixes j :: int and k :: nat
  assumes "\<bar>j\<bar> < 2 ^ (53 + k)" and "2 ^ k dvd j"
  shows "to_double (of_int j) = of_int j"
proof (cases "j = 0")
  case True
  then show ?thesis by (simp add: to_double_def)
next
  case False
  let ?x = "of_int j :: rat"
  have xpos: "0 < \<bar>?x\<bar>" using False by simp
  have lt: "\<bar>?x\<bar> < pow2 (53 + int k)"
  proof -
    have "\<bar>?x\<bar> = of_int \<bar>j\<bar>" by simp
    also have "\<dots> < of_int (2 ^ (53 + k))" using assms(1) by (simp only: of_int_less_iff)
    also have "\<dots> = pow2 (53 + int k)" by (simp add: pow2_nat nat_add_distrib)
    finally show ?thesis .
  qed
  have il: "ilog2 \<bar>?x\<bar> < 53 + int k"
  proof (rule ccontr)
    assume "\<not> ilog2 \<bar>?x\<bar> < 53 + int k"
    then have "pow2 (53 + int k) \<le> pow2 (ilog2 \<bar>?x\<bar>)" by (simp add: pow2_mono)
    with ilog2_bounds [OF xpos] lt show False by simp
  qed
  define e where "e = max (ilog2 \<bar>?x\<bar> - 52) (- 1074)"
  have ek: "e \<le> int k" using il by (simp add: e_def)
  obtain m where m: "j = 2 ^ k * m" using assms(2) by (auto simp: dvd_def)
  have "?x = of_int m * pow2 (int k)" by (simp add: m pow2_nat)
  also have "\<dots> = of_int m * (pow2 (int k - e) * pow2 e)" using pow2_split [of "int k" e] by simp
  finally have "?x / pow2 e = of_int m * pow2 (int k - e)"
    using pow2_pos [of e] by simp
  also have "\<dots> = of_int (m * 2 ^ nat (int k - e))" using ek by (simp add: pow2_nat)
  finally have q: "?x / pow2 e = of_int (m * 2 ^ nat (int k - e))" .
  have "of_int (round_half_even (?x / pow2 e)) * pow2 e = ?x / pow2 e * pow2 e"
    by (simp only: q round_half_even_of_int)
  also have "\<dots> = ?x" using pow2_pos [of e] by simp
  finally show ?thesis using False by (simp add: to_double_def e_def Let_def)
qed

lemma to_double_nonneg: "0 \<le> x \<Longrightarrow> 0 \<le> to_double x"
proof -
  assume x: "0 \<le> x"
  have "0 \<le> round_half_even (x / pow2 e)" for e
  proof -
    have "0 \<le> x / pow2 e" using x pow2_pos [of e] by simp
    then have "0 \<le> \<lfloor>x / pow2 e\<rfloor>" by simp
    with round_half_even_ge_floor [of "x / pow2 e"] show ?thesis by linarith
  qed
  then show ?thesis using pow2_pos by (simp add: to_double_def Let_def less_imp_le)
qed














section \<open>Properties of the responder\<close>

subsection \<open>Net increment\<close>

lemma net_increment_example: "net_increment 112 100 20 15 = 7"
  by code_simp

lemma fadd_example: "fadd 20 7 = 27"
  by code_simp

text \<open>
  C1. In every poll cycle that accounts for a receipt, the amount logged and added to
  \<open>total_received\<close> is \<open>current_balance - (starting_balance + total_received -
  total_responded)\<close>, computed in float arithmetic; for a starting balance of 100, 20
  received, 15 responded and a balance of 112 it is 7.
\<close>

theorem poll_cycle_net_increment:
  assumes "0 < net_increment (current_balance ob) (starting_balance cfg)
                 (total_received s) (total_responded s)
           \<or> total_responded s = 0"
  shows "net_increment (current_balance ob) (starting_balance cfg)
             (total_received s) (total_responded s)
           = fsub (current_balance ob)
               (fsub (fadd (starting_balance cfg) (total_received s)) (total_responded s))
         \<and> hd (fst (poll_cycle cfg ob s))
           = PrintNetReceived (expected_sender_address cfg)
               (fsub (current_balance ob)
                  (fsub (fadd (starting_balance cfg) (total_received s)) (total_responded s)))
         \<and> total_received (snd (snd (poll_cycle cfg ob s)))
           = fadd (total_received s)
               (fsub (current_balance ob)
                  (fsub (fadd (starting_balance cfg) (total_received s)) (total_responded s)))
         \<and> net_increment 112 100 20 15 = 7"
  using assms net_increment_example
  by (auto simp: poll_cycle_def net_increment_def Let_def cap_check_def send_transaction_any_def
           split: sum.splits)

theorem poll_cycle_net_increment_witness:
  "0 < net_increment 112 100 20 15
   \<and> hd (fst (poll_cycle
        \<lparr>expected_sender_address = ''smr1'', starting_balance = 100,
         max_amount_received = 50, response_amounts = [5, 5, 5, 5]\<rparr>
        \<lparr>current_balance = 112, library_send = Inr \<lparr>tx_id = None, tx_transactionId = Some ''0xab'',
           tx_hash = None, tx_amount = None\<rparr>\<rparr>
        \<lparr>total_received = 20, total_responded = 15, idx = 3\<rparr>))
     = PrintNetReceived ''smr1'' 7
   \<and> total_received (snd (snd (poll_cycle
        \<lparr>expected_sender_address = ''smr1'', starting_balance = 100,
         max_amount_received = 50, response_amounts = [5, 5, 5, 5]\<rparr>
        \<lparr>current_balance = 112, library_send = Inr \<lparr>tx_id = None, tx_transactionId = Some ''0xab'',
           tx_hash = None, tx_amount = None\<rparr>\<rparr>
        \<lparr>total_received = 20, total_responded = 15, idx = 3\<rparr>)))
     = 27"
proof -
  have n: "fsub 112 (fsub (fadd 100 20) 15) = 7"
    using net_increment_example by (simp add: net_increment_def)
  show ?thesis
    using poll_cycle_net_increment [of
        "\<lparr>current_balance = 112, library_send = Inr \<lparr>tx_id = None, tx_transactionId = Some ''0xab'',
           tx_hash = None, tx_amount = None\<rparr>\<rparr>"
        "\<lparr>expected_sender_address = ''smr1'', starting_balance = 100,
         max_amount_received = 50, response_amounts = [5, 5, 5, 5]\<rparr>"
        "\<lparr>total_received = 20, total_responded = 15, idx = 3\<rparr>"]
      n fadd_example
    by (simp add: net_increment_def)
qed

subsection \<open>Reaching the cap\<close>

text \<open>
  C4. In a state with \<open>total_received \<ge> max_amount_received\<close> the loop runs no poll
  cycle and ends at once, whatever the chunk index and whatever the world would do.
\<close>

theorem cap_reached_terminates:
  assumes "max_amount_received cfg \<le> total_received s"
  shows "responder_loop cfg obs s = Completed [] s"
  using assms by (cases obs) auto

theorem cap_reached_terminates_witness:
  "max_amount_received \<lparr>expected_sender_address = ''smr1'', starting_balance = 100,
       max_amount_received = 10, response_amounts = [1, 1, 1]\<rparr>
     \<le> total_received \<lparr>total_received = 10, total_responded = 1, idx = 1\<rparr>
   \<and> responder_loop \<lparr>expected_sender_address = ''smr1'', starting_balance = 100,
       max_amount_received = 10, response_amounts = [1, 1, 1]\<rparr>
       [\<lparr>current_balance = 500, library_send = Inl (WalletError ''node unreachable'')\<rparr>]
       \<lparr>total_received = 10, total_responded = 1, idx = 1\<rparr>
     = Completed [] \<lparr>total_received = 10, total_responded = 1, idx = 1\<rparr>"
  using cap_reached_terminates [of
      "\<lparr>expected_sender_address = ''smr1'', starting_balance = 100,
       max_amount_received = 10, response_amounts = [1, 1, 1]\<rparr>"
      "\<lparr>total_received = 10, total_responded = 1, idx = 1\<rparr>"
      "[\<lparr>current_balance = 500, library_send = Inl (WalletError ''node unreachable'')\<rparr>]"]
  by simp

text \<open>
  The cycle in which the cap is reached is the last one: no later observation is read.
\<close>

lemma cap_reached_in_cycle:
  assumes "total_received s < max_amount_received cfg"
    and "poll_cycle cfg ob s = (effs, ctl, s')"
    and "max_amount_received cfg \<le> total_received s'"
  shows "responder_loop cfg (ob # obs) s = Completed effs s'"
proof (cases ctl)
  case Continue
  have "responder_loop cfg obs s' = Completed [] s'"
    using assms(3) by (cases obs) auto
  with assms(1,2) Continue show ?thesis by simp
next
  case Break
  with assms(1,2) show ?thesis by simp
qed

subsection \<open>When a chunk is dispatched\<close>

lemma send_transaction_any_returns: "\<exists>r. send_transaction_any library = Inr r"
  by (cases library) (simp_all add: send_transaction_any_def)





subsection \<open>An exhausted schedule\<close>

lemma schedule_one_chunk: "response_schedule py_sum 1 1 = Inr [1]"
  by code_simp

lemma first_cycle_pays:
  "poll_cycle
     \<lparr>expected_sender_address = ''smr1'', starting_balance = 100,
      max_amount_received = 10, response_amounts = [1]\<rparr>
     \<lparr>current_balance = 101, library_send = Inr \<lparr>tx_id = None, tx_transactionId = Some ''0xab'',
        tx_hash = None, tx_amount = None\<rparr>\<rparr>
     initial_state
   = ([PrintNetReceived ''smr1'' 1, CallSendTransactionAny ''smr1'' 1000000,
       PrintResponseSent (Transaction \<lparr>tx_id = None, tx_transactionId = Some ''0xab'',
         tx_hash = None, tx_amount = None\<rparr>)],
      Continue,
      \<lparr>total_received = 1, total_responded = 1, idx = 1\<rparr>)"
  by code_simp

lemma quiet_cycle:
  "poll_cycle
     \<lparr>expected_sender_address = ''smr1'', starting_balance = 100,
      max_amount_received = 10, response_amounts = [1]\<rparr>
     \<lparr>current_balance = 100, library_send = Inr \<lparr>tx_id = None, tx_transactionId = Some ''0xab'',
        tx_hash = None, tx_amount = None\<rparr>\<rparr>
     \<lparr>total_received = 1, total_responded = 1, idx = 1\<rparr>
   = ([], Continue, \<lparr>total_received = 1, total_responded = 1, idx = 1\<rparr>)"
  by code_simp

lemma quiet_cycles_poll_on:
  "responder_loop
     \<lparr>expected_sender_address = ''smr1'', starting_balance = 100,
      max_amount_received = 10, response_amounts = [1]\<rparr>
     (replicate n \<lparr>current_balance = 100, library_send = Inr \<lparr>tx_id = None,
        tx_transactionId = Some ''0xab'', tx_hash = None, tx_amount = None\<rparr>\<rparr>)
     \<lparr>total_received = 1, total_responded = 1, idx = 1\<rparr>
   = Polling [] \<lparr>total_received = 1, total_responded = 1, idx = 1\<rparr>"
  using quiet_cycle by (induction n) simp_all

text \<open>
  C5. The docstring says the responder stops when all response chunks are sent. The
  \<open>break\<close> for the exhausted schedule sits inside the branch taken on a receipt, so it
  is reached only when a further net increment arrives. With one chunk of 1, a cap of
  10 and a starting balance of 100: the balance 101 triggers the only chunk
  (\<open>idx = 1 = len(response_amounts)\<close>), and as long as the balance then stays at 100
  the loop keeps polling, for any number \<open>n\<close> of further cycles.
\<close>

theorem exhausted_schedule_keeps_polling:
  "idx \<lparr>total_received = 1, total_responded = 1, idx = 1 :: nat\<rparr> \<ge> length [1 :: rat]
   \<and> responder_loop
     \<lparr>expected_sender_address = ''smr1'', starting_balance = 100,
      max_amount_received = 10, response_amounts = [1]\<rparr>
     (\<lparr>current_balance = 101, library_send = Inr \<lparr>tx_id = None, tx_transactionId = Some ''0xab'',
        tx_hash = None, tx_amount = None\<rparr>\<rparr>
      # replicate n \<lparr>current_balance = 100, library_send = Inr \<lparr>tx_id = None,
        tx_transactionId = Some ''0xab'', tx_hash = None, tx_amount = None\<rparr>\<rparr>)
     initial_state
   = Polling
       [PrintNetReceived ''smr1'' 1, CallSendTransactionAny ''smr1'' 1000000,
        PrintResponseSent (Transaction \<lparr>tx_id = None, tx_transactionId = Some ''0xab'',
          tx_hash = None, tx_amount = None\<rparr>)]
       \<lparr>total_received = 1, total_responded = 1, idx = 1\<rparr>"
  using first_cycle_pays quiet_cycles_poll_on [of n] by (simp add: initial_state_def)

subsection \<open>A dispatch that fails\<close>

text \<open>
  \<open>send_transaction_any\<close> turns every exception of the wallet library into a dict, so
  the \<open>except\<close> branch of the loop never runs.
\<close>

lemma send_error_never_logged: "\<not> list_ex is_send_error (fst (poll_cycle cfg ob s))"
proof -
  obtain r where r: "send_transaction_any (library_send ob) = Inr r"
    using send_transaction_any_returns by blast
  show ?thesis
    by (simp add: poll_cycle_def Let_def cap_check_def r)
qed

text \<open>
  C6. When the wallet library raises while a chunk is being dispatched, the cycle logs
  the returned dict as a sent response, adds the chunk to \<open>total_responded\<close> and
  advances \<open>idx\<close>; no send error is logged. The claim (index and \<open>total_responded\<close>
  unchanged, failure logged) describes the \<open>except\<close> branch, which this failure never
  reaches.
\<close>

theorem failed_dispatch_counted_as_sent:
  assumes "idx s < length (response_amounts cfg)"
    and "0 < net_increment (current_balance ob) (starting_balance cfg)
               (total_received s) (total_responded s)
         \<or> total_responded s = 0"
    and "library_send ob = Inl e"
  shows "idx (snd (snd (poll_cycle cfg ob s))) = idx s + 1
         \<and> total_responded (snd (snd (poll_cycle cfg ob s)))
             = fadd (total_responded s) (response_amounts cfg ! idx s)
         \<and> list_ex (\<lambda>eff. eff = PrintResponseSent
               (ErrorDict [(''amount'', ''0''), (''timestamp'', ''0''), (''error'', exn_text e)]))
             (fst (poll_cycle cfg ob s))
         \<and> \<not> list_ex is_send_error (fst (poll_cycle cfg ob s))"
  using assms
  by (auto simp: poll_cycle_def Let_def cap_check_def send_transaction_any_def)

lemma failed_cycle:
  "poll_cycle
     \<lparr>expected_sender_address = ''smr1'', starting_balance = 100,
      max_amount_received = 10, response_amounts = [1, 1]\<rparr>
     \<lparr>current_balance = 101, library_send = Inl (WalletError ''insufficient funds'')\<rparr>
     initial_state
   = ([PrintNetReceived ''smr1'' 1, CallSendTransactionAny ''smr1'' 1000000,
       PrintResponseSent (ErrorDict [(''amount'', ''0''), (''timestamp'', ''0''),
         (''error'', ''insufficient funds'')])],
      Continue,
      \<lparr>total_received = 1, total_responded = 1, idx = 1\<rparr>)"
  by code_simp

theorem failed_dispatch_counted_as_sent_witness:
  "idx initial_state < length [1, 1 :: rat]
   \<and> total_responded initial_state = 0
   \<and> idx (snd (snd (poll_cycle
        \<lparr>expected_sender_address = ''smr1'', starting_balance = 100,
         max_amount_received = 10, response_amounts = [1, 1]\<rparr>
        \<lparr>current_balance = 101, library_send = Inl (WalletError ''insufficient funds'')\<rparr>
        initial_state))) = 1
   \<and> total_responded (snd (snd (poll_cycle
        \<lparr>expected_sender_address = ''smr1'', starting_balance = 100,
         max_amount_received = 10, response_amounts = [1, 1]\<rparr>
        \<lparr>current_balance = 101, library_send = Inl (WalletError ''insufficient funds'')\<rparr>
        initial_state))) = 1"
  using failed_dispatch_counted_as_sent [of initial_state
      "\<lparr>expected_sender_address = ''smr1'', starting_balance = 100,
         max_amount_received = 10, response_amounts = [1, 1]\<rparr>"
      "\<lparr>current_balance = 101, library_send = Inl (WalletError ''insufficient funds'')\<rparr>"
      "WalletError ''insufficient funds''"]
    failed_cycle
  by (simp add: initial_state_def)

subsection \<open>The response schedule\<close>
















section \<open>Properties of the HTTP layer\<close>

subsection \<open>Validation in /api/send\<close>

text \<open>
  C7, as stated, fails. The route runs \<open>_auth\<close> before the handler: a request without
  an \<open>Authorization\<close> header, with amount 0 and a recipient that does not match the
  pattern, is answered with 401, not with 400.
\<close>

theorem unauthenticated_send_is_401:
  "amount \<lparr>recipient = ''nobody'', amount = 0\<rparr> \<le> 0
   \<and> \<not> smr_addr_match (recipient \<lparr>recipient = ''nobody'', amount = 0\<rparr>)
   \<and> api_send Map.empty None \<lparr>recipient = ''nobody'', amount = 0\<rparr>
        (Inl (WalletError ''unused''))
     = ([], Inl (HTTPException 401 ''Missing or invalid Authorization header''))"
  by (simp add: api_send_def auth_def smr_addr_match_def)

text \<open>
  C7, amended. A request to \<open>POST /api/send\<close> whose amount is not positive or whose
  recipient does not match the pattern never reaches \<open>send_transaction\<close>. When it
  passes \<open>_auth\<close> it is answered with 400; when it does not, it gets the answer of
  \<open>_auth\<close>. The handler itself answers 400 without a wallet call for any session.
\<close>

theorem send_rejects_before_wallet:
  assumes "amount body \<le> 0 \<or> \<not> smr_addr_match (recipient body)"
  shows "fst (api_send SESSIONS authorization body library) = []
         \<and> status_code (snd (api_send SESSIONS authorization body library))
           = (case auth SESSIONS authorization of
                Inr sess \<Rightarrow> 400
              | Inl f \<Rightarrow> status_code (Inl f :: failure + send_response))
         \<and> (\<forall>sess. fst (send body sess library) = []
                  \<and> status_code (snd (send body sess library)) = 400)"
  using assms
  by (auto simp: api_send_def send_def split: sum.splits)

lemma bearer_split_example:
  "py_split ''Bearer Zk3tQ9vX1aB7cD5eF2gH8iJ4kL6mN0oP-_rStUvWxYz''
   = [''Bearer'', ''Zk3tQ9vX1aB7cD5eF2gH8iJ4kL6mN0oP-_rStUvWxYz'']"
  by code_simp

lemma bad_recipient_example: "\<not> smr_addr_match ''smr1abc''"
  by (simp add: smr_addr_match_def)

theorem send_rejects_before_wallet_witness:
  "\<not> smr_addr_match (recipient \<lparr>recipient = ''smr1abc'', amount = 1000000\<rparr>)
   \<and> api_send
       [''Zk3tQ9vX1aB7cD5eF2gH8iJ4kL6mN0oP-_rStUvWxYz'' \<mapsto>
          \<lparr>sess_wallet = 1, sess_account_name = ''alice'', sess_pin = ''1234'',
           sess_password = ''secret''\<rparr>]
       (Some ''Bearer Zk3tQ9vX1aB7cD5eF2gH8iJ4kL6mN0oP-_rStUvWxYz'')
       \<lparr>recipient = ''smr1abc'', amount = 1000000\<rparr>
       (Inl (WalletError ''unused''))
     = ([], Inl (HTTPException 400 ''Invalid recipient address format''))"
proof -
  have a: "auth
       [''Zk3tQ9vX1aB7cD5eF2gH8iJ4kL6mN0oP-_rStUvWxYz'' \<mapsto>
          \<lparr>sess_wallet = 1, sess_account_name = ''alice'', sess_pin = ''1234'',
           sess_password = ''secret''\<rparr>]
       (Some ''Bearer Zk3tQ9vX1aB7cD5eF2gH8iJ4kL6mN0oP-_rStUvWxYz'')
     = Inr \<lparr>sess_wallet = 1, sess_account_name = ''alice'', sess_pin = ''1234'',
           sess_password = ''secret''\<rparr>"
    by (simp add: auth_def startswith_def bearer_split_example)
  show ?thesis
    using send_rejects_before_wallet [of "\<lparr>recipient = ''smr1abc'', amount = 1000000\<rparr>"
        "[''Zk3tQ9vX1aB7cD5eF2gH8iJ4kL6mN0oP-_rStUvWxYz'' \<mapsto>
          \<lparr>sess_wallet = 1, sess_account_name = ''alice'', sess_pin = ''1234'',
           sess_password = ''secret''\<rparr>]"
        "Some ''Bearer Zk3tQ9vX1aB7cD5eF2gH8iJ4kL6mN0oP-_rStUvWxYz''"
        "Inl (WalletError ''unused'')"]
      bad_recipient_example a
    by (simp add: api_send_def send_def)
qed

subsection \<open>Logout\<close>

lemma urlsafe_alphabet_no_space: "list_all (\<lambda>c. \<not> py_isspace c) urlsafe_alphabet"
  by (simp add: urlsafe_alphabet_def py_isspace_def)

lemma urlsafe_not_space: "c \<in> set urlsafe_alphabet \<Longrightarrow> \<not> py_isspace c"
  using urlsafe_alphabet_no_space by (simp add: list_all_iff)

lemma split_ws_no_space:
  "list_all (\<lambda>c. \<not> py_isspace c) t \<Longrightarrow>
   split_ws cur t = (if cur @ t = [] then [] else [cur @ t])"
  by (induction t arbitrary: cur) auto

lemma py_split_bearer:
  assumes "token_urlsafe t"
  shows "py_split (''Bearer '' @ t) = [''Bearer'', t]"
proof -
  have ns: "list_all (\<lambda>c. \<not> py_isspace c) t"
    using assms urlsafe_not_space by (auto simp: token_urlsafe_def list_all_iff)
  have ne: "t \<noteq> []"
    using assms by (auto simp: token_urlsafe_def)
  have "split_ws [] t = [t]"
    using split_ws_no_space [OF ns, of "[]"] ne by simp
  then show ?thesis
    by (simp add: py_split_def py_isspace_def)
qed

lemma login_stores:
  "login body signin token S = Inr (S', tok, acct) \<Longrightarrow>
   \<exists>sess. S' = S(token \<mapsto> sess)"
  by (auto simp: login_def split: prod.splits option.splits list.splits)

lemma logout_removes:
  "logout authorization S = Inr S' \<Longrightarrow> S' = S \<or> (\<exists>token. S' = S(token := None))"
  by (auto simp: logout_def split: option.splits if_splits list.splits)

lemma reachable_tokens:
  assumes "reachable S" and "S t = Some sess"
  shows "token_urlsafe t"
  using assms
  by (induction arbitrary: sess)
    (auto dest!: login_stores logout_removes split: if_splits)

text \<open>
  Logins with other tokens and logouts do not bring a removed token back.
\<close>

lemma later_keeps_absent:
  assumes "later_without t S S'" and "S t = None"
  shows "S' t = None"
  using assms
  by (induction) (auto dest!: login_stores logout_removes split: if_splits)

text \<open>
  The condition on later draws is needed: a login that draws \<open>t\<close> again makes the old
  header valid again.
\<close>

lemma same_token_readmits:
  assumes "token_urlsafe t" and "login body signin t S = Inr (S', tok, acct)"
  shows "\<exists>sess. auth S' (Some (''Bearer '' @ t)) = Inr sess"
proof -
  from login_stores [OF assms(2)] obtain sess where "S' = S(t \<mapsto> sess)" ..
  then show ?thesis
    using py_split_bearer [OF assms(1)] by (simp add: auth_def startswith_def)
qed

text \<open>
  C8. For a token \<open>t\<close> present in a session map the process can hold,
  \<open>POST /api/logout\<close> with \<open>Authorization: Bearer t\<close> removes the token. From then on,
  whatever logins with other tokens and logouts follow, \<open>/api/balance\<close>,
  \<open>/api/address\<close> and \<open>/api/send\<close> with the same header are answered with 401 and make
  no call into the wallet. (Tokens are unique: no later login draws \<open>t\<close> again.)
\<close>

theorem logout_invalidates_token:
  assumes "reachable S" and "S t = Some sess"
    and "later_without t (S(t := None)) S'"
  shows "logout (Some (''Bearer '' @ t)) S = Inr (S(t := None))
         \<and> t \<notin> dom (S(t := None))
         \<and> t \<notin> dom S'
         \<and> auth S' (Some (''Bearer '' @ t))
             = Inl (HTTPException 401 ''Invalid or expired session'')
         \<and> api_balance max_digits S' (Some (''Bearer '' @ t)) lib_balance
             = ([], Inl (HTTPException 401 ''Invalid or expired session''))
         \<and> api_address S' (Some (''Bearer '' @ t)) lib_address
             = ([], Inl (HTTPException 401 ''Invalid or expired session''))
         \<and> api_send S' (Some (''Bearer '' @ t)) body lib_send
             = ([], Inl (HTTPException 401 ''Invalid or expired session''))"
proof -
  have sp: "py_split (''Bearer '' @ t) = [''Bearer'', t]"
    using reachable_tokens [OF assms(1,2)] by (rule py_split_bearer)
  have sw: "startswith (''Bearer '' @ t) ''Bearer ''"
    by (simp add: startswith_def)
  have lo: "logout (Some (''Bearer '' @ t)) S = Inr (S(t := None))"
    using sp sw by (simp add: logout_def)
  have gone: "S' t = None"
    using later_keeps_absent [OF assms(3)] by simp
  have au: "auth S' (Some (''Bearer '' @ t))
             = Inl (HTTPException 401 ''Invalid or expired session'')"
    using sp sw gone by (simp add: auth_def)
  show ?thesis
    using lo au gone by (simp add: api_balance_def api_address_def api_send_def domIff)
qed

lemma token_example: "token_urlsafe ''Zk3tQ9vX1aB7cD5eF2gH8iJ4kL6mN0oP-_rStUvWxYz''"
  by (simp add: token_urlsafe_def urlsafe_alphabet_def)

lemma other_token_example: "token_urlsafe ''q7Yw2Er5Tt8Ui1Oo4Pp6Aa9Ss3Dd0Ff-Gg_HhJjKkLl''"
  by (simp add: token_urlsafe_def urlsafe_alphabet_def)

theorem logout_invalidates_token_witness:
  "reachable [''Zk3tQ9vX1aB7cD5eF2gH8iJ4kL6mN0oP-_rStUvWxYz'' \<mapsto>
       \<lparr>sess_wallet = 1, sess_account_name = ''alice'', sess_pin = ''1234'',
        sess_password = ''secret''\<rparr>]
   \<and> logout (Some ''Bearer Zk3tQ9vX1aB7cD5eF2gH8iJ4kL6mN0oP-_rStUvWxYz'')
       [''Zk3tQ9vX1aB7cD5eF2gH8iJ4kL6mN0oP-_rStUvWxYz'' \<mapsto>
          \<lparr>sess_wallet = 1, sess_account_name = ''alice'', sess_pin = ''1234'',
           sess_password = ''secret''\<rparr>]
     = Inr Map.empty
   \<and> later_without ''Zk3tQ9vX1aB7cD5eF2gH8iJ4kL6mN0oP-_rStUvWxYz'' Map.empty
       [''q7Yw2Er5Tt8Ui1Oo4Pp6Aa9Ss3Dd0Ff-Gg_HhJjKkLl'' \<mapsto>
          \<lparr>sess_wallet = 2, sess_account_name = ''bob'', sess_pin = ''9876'',
           sess_password = ''hunter2''\<rparr>]
   \<and> api_send
       [''q7Yw2Er5Tt8Ui1Oo4Pp6Aa9Ss3Dd0Ff-Gg_HhJjKkLl'' \<mapsto>
          \<lparr>sess_wallet = 2, sess_account_name = ''bob'', sess_pin = ''9876'',
           sess_password = ''hunter2''\<rparr>]
       (Some ''Bearer Zk3tQ9vX1aB7cD5eF2gH8iJ4kL6mN0oP-_rStUvWxYz'')
       \<lparr>recipient = ''smr1qpzry9x8gf2tvdw0s3jn54khce6mua7lqpzry9x8gf2tvdw0s3jn54khce6'',
        amount = 1000000\<rparr>
       (Inr \<lparr>tx_id = None, tx_transactionId = Some ''0xab'', tx_hash = None, tx_amount = None\<rparr>)
     = ([], Inl (HTTPException 401 ''Invalid or expired session''))"
proof -
  let ?t = "''Zk3tQ9vX1aB7cD5eF2gH8iJ4kL6mN0oP-_rStUvWxYz''"
  let ?u = "''q7Yw2Er5Tt8Ui1Oo4Pp6Aa9Ss3Dd0Ff-Gg_HhJjKkLl''"
  let ?alice = "\<lparr>sess_wallet = 1, sess_account_name = ''alice'', sess_pin = ''1234'',
        sess_password = ''secret''\<rparr>"
  let ?bob = "\<lparr>sess_wallet = 2, sess_account_name = ''bob'', sess_pin = ''9876'',
        sess_password = ''hunter2''\<rparr>"
  have lg: "login \<lparr>account_name = ''alice'', pin = ''1234'', password = ''secret''\<rparr>
        (Some 1, Some [''Account(alias=1234)'']) ?t Map.empty
      = Inr ([?t \<mapsto> ?alice], ?t, py_str_list [''Account(alias=1234)''])"
    by (simp add: login_def)
  have r: "reachable [?t \<mapsto> ?alice]"
    by (rule reachable.after_login [OF reachable.start token_example lg])
  have lg2: "login \<lparr>account_name = ''bob'', pin = ''9876'', password = ''hunter2''\<rparr>
        (Some 2, Some [''Account(alias=9876)'']) ?u Map.empty
      = Inr ([?u \<mapsto> ?bob], ?u, py_str_list [''Account(alias=9876)''])"
    by (simp add: login_def)
  have ne: "?u \<noteq> ?t" by simp
  have l0: "later_without ?t Map.empty [?u \<mapsto> ?bob]"
    by (rule later_without.then_login [OF later_without.same other_token_example ne lg2])
  have l: "later_without ?t ([?t \<mapsto> ?alice](?t := None)) [?u \<mapsto> ?bob]"
    using l0 by simp
  show ?thesis
    using r l0 logout_invalidates_token [OF r _ l, of ?alice max_digits lib_balance lib_address
        "\<lparr>recipient = ''smr1qpzry9x8gf2tvdw0s3jn54khce6mua7lqpzry9x8gf2tvdw0s3jn54khce6'',
          amount = 1000000\<rparr>"
        "Inr \<lparr>tx_id = None, tx_transactionId = Some ''0xab'', tx_hash = None, tx_amount = None\<rparr>"]
    by simp
qed

subsection \<open>Wallet failures behind the routes\<close>

lemma micros_of_zero: "parse_balance_to_micros max_digits (RawInt 0) = 0"
proof -
  have s: "py_str (RawInt 0) = Inr ''0''"
    by code_simp
  have p: "parse_available_balance max_digits ''0'' = 0"
    by (simp add: parse_available_balance_def match_available_here_def available_prefix_def)
  have f: "float_of_int 0 = Inr 0"
    by (simp add: float_of_int_def overflows_def to_double_def)
  have r: "round_half_even (fmul 0 1000000) = 0"
    by (simp add: fmul_def to_double_def round_half_even_def)
  have o: "\<not> overflows (0 * 1000000)"
    by (simp add: overflows_def to_double_def)
  show ?thesis
    using s p f r o by (simp add: parse_balance_to_micros_def micros_try_def)
qed

text \<open>
  C9. The handlers wrap their wallet call in \<open>try\<close> and answer 500 with the exception
  text from \<open>except Exception\<close>; the helpers they call have caught the exception already.
  When the wallet library raises, \<open>/api/send\<close> (with a valid amount and recipient)
  answers 200 with a null \<open>txid\<close> and the requested amount, \<open>/api/balance\<close> answers 200
  with \<open>available = 0\<close>, and \<open>/api/address\<close> answers 404; none answers 500.
\<close>

theorem wallet_failure_not_reported:
  assumes "0 < amount body" and "smr_addr_match (recipient body)"
  shows "send body sess (Inl e)
           = ([CallSendTransaction (sess_wallet sess) (sess_pin sess) (recipient body) (amount body)],
              Inr \<lparr>txid = None, sent_amount = amount body\<rparr>)
         \<and> status_code (snd (send body sess (Inl e))) = 200
         \<and> snd (balance max_digits sess (Inl e)) = Inr 0
         \<and> snd (address sess (Inl e)) = Inl (HTTPException 404 ''Address not found'')"
  using assms micros_of_zero [of max_digits]
  by (simp add: send_def send_transaction_def py_or_def balance_def get_my_balance_def
        address_def get_my_address_instanced_def)

lemma good_recipient_example:
  "smr_addr_match ''smr1qpzry9x8gf2tvdw0s3jn54khce6mua7lqpzry9x8gf2tvdw0s3jn54khce6''"
  by (simp add: smr_addr_match_def bech32_charset_def)

theorem wallet_failure_not_reported_witness:
  "0 < amount \<lparr>recipient = ''smr1qpzry9x8gf2tvdw0s3jn54khce6mua7lqpzry9x8gf2tvdw0s3jn54khce6'',
        amount = 1000000\<rparr>
   \<and> smr_addr_match ''smr1qpzry9x8gf2tvdw0s3jn54khce6mua7lqpzry9x8gf2tvdw0s3jn54khce6''
   \<and> send
       \<lparr>recipient = ''smr1qpzry9x8gf2tvdw0s3jn54khce6mua7lqpzry9x8gf2tvdw0s3jn54khce6'',
        amount = 1000000\<rparr>
       \<lparr>sess_wallet = 1, sess_account_name = ''alice'', sess_pin = ''1234'',
        sess_password = ''secret''\<rparr>
       (Inl (WalletError ''insufficient funds''))
     = ([CallSendTransaction 1 ''1234''
           ''smr1qpzry9x8gf2tvdw0s3jn54khce6mua7lqpzry9x8gf2tvdw0s3jn54khce6'' 1000000],
        Inr \<lparr>txid = None, sent_amount = 1000000\<rparr>)"
  using wallet_failure_not_reported [of
      "\<lparr>recipient = ''smr1qpzry9x8gf2tvdw0s3jn54khce6mua7lqpzry9x8gf2tvdw0s3jn54khce6'',
        amount = 1000000\<rparr>"
      "\<lparr>sess_wallet = 1, sess_account_name = ''alice'', sess_pin = ''1234'',
        sess_password = ''secret''\<rparr>"
      "WalletError ''insufficient funds''"]
    good_recipient_example
  by simp

subsection \<open>Parsing the available balance\<close>

lemma match_needs_a: "CHR ''a'' \<noteq> c \<Longrightarrow> match_available_here (c # cs) = None"
  by (auto simp: match_available_here_def available_prefix_def)

lemma re_search_no_a: "CHR ''a'' \<notin> set s \<Longrightarrow> re_search_available s = None"
  by (induction s) (simp_all add: match_needs_a)

lemma digit_char_not_a: "d < 10 \<Longrightarrow> digit_char d \<noteq> CHR ''a''"
proof
  assume d: "d < 10" and "digit_char d = CHR ''a''"
  then have "(of_char (char_of (48 + d)) :: nat) = of_char CHR ''a''"
    by (simp add: digit_char_def)
  then show False using d by simp
qed

lemma digits_of_nat_no_a: "CHR ''a'' \<notin> set (digits_of_nat n)"
proof (induction n rule: digits_of_nat.induct)
  case (1 n)
  show ?case
  proof (cases "n < 10")
    case True
    then show ?thesis using digit_char_not_a [of n] by (simp add: digits_of_nat.simps [of n])
  next
    case False
    have "n mod 10 < 10" by simp
    then have "digit_char (n mod 10) \<noteq> CHR ''a''" by (rule digit_char_not_a)
    with False "1.IH" show ?thesis by (auto simp: digits_of_nat.simps [of n])
  qed
qed

lemma parse_str_int: "parse_available_balance max_digits (py_str_int n) = 0"
proof -
  have "CHR ''a'' \<notin> set (py_str_int n)"
    using digits_of_nat_no_a by (simp add: py_str_int_def)
  then show ?thesis by (simp add: parse_available_balance_def re_search_no_a)
qed

lemma is_digit_value: "is_digit c \<Longrightarrow> (48::int) \<le> of_char c"
  by (auto simp: is_digit_def)

lemma match_here_digits: "match_available_here s = Some ds \<Longrightarrow> list_all is_digit ds"
  by (auto simp: match_available_here_def Let_def list_all_iff split: if_splits
      dest: set_takeWhileD)

lemma re_search_digits: "re_search_available s = Some ds \<Longrightarrow> list_all is_digit ds"
  by (induction s) (auto split: option.splits dest: match_here_digits)

lemma digits_value_nonneg:
  "list_all is_digit ds \<Longrightarrow> 0 \<le> a \<Longrightarrow> 0 \<le> foldl (\<lambda>a c. 10 * a + (of_char c - 48)) (a::int) ds"
proof (induction ds arbitrary: a)
  case Nil
  then show ?case by simp
next
  case (Cons c ds)
  have "0 \<le> 10 * a + (of_char c - 48)"
    using Cons.prems is_digit_value [of c] by simp
  with Cons show ?case by simp
qed

lemma parse_available_balance_nonneg: "0 \<le> parse_available_balance max_digits s"
  using digits_value_nonneg [OF re_search_digits, of s _ 0]
  by (auto simp: parse_available_balance_def int_of_digits_def split: option.splits)

lemma float_of_int_zero: "float_of_int 0 = Inr 0"
  by (simp add: float_of_int_def overflows_def to_double_def)

lemma micros_try_int: "micros_try max_digits (RawInt n) = Inr 0"
proof -
  have r: "round_half_even (fmul 0 1000000) = 0"
    by (simp add: fmul_def to_double_def round_half_even_def)
  have o: "\<not> overflows (0 * 1000000)"
    by (simp add: overflows_def to_double_def)
  show ?thesis
    using r o by (simp add: micros_try_def parse_str_int float_of_int_zero)
qed

lemma small_not_overflows:
  fixes j :: int
  assumes "\<bar>j\<bar> < 2 ^ 59" and "to_double (of_int j) = of_int j"
  shows "\<not> overflows (of_int j)"
proof -
  have "\<bar>of_int j :: rat\<bar> = of_int \<bar>j\<bar>" by simp
  also have "\<dots> < of_int (2 ^ 59)" using assms(1) by (simp only: of_int_less_iff)
  also have "\<dots> = (2::rat) ^ 59" by simp
  also have "\<dots> \<le> 2 ^ 1024" by (rule power_increasing) simp_all
  finally show ?thesis using assms(2) by (simp add: overflows_def)
qed

lemma micros_try_exact:
  assumes s: "py_str raw = Inr s"
    and n: "parse_available_balance max_digits s = n"
    and small: "n * 15625 < 2 ^ 53"
  shows "micros_try max_digits raw = Inr (1000000 * n)"
proof -
  have n0: "0 \<le> n" using parse_available_balance_nonneg [of max_digits s] n by simp
  have a1: "\<bar>n\<bar> < 2 ^ (53 + 0)" using n0 small by simp
  have e1: "to_double (of_int n) = of_int n"
    by (rule to_double_exact [OF a1]) simp
  have a2: "\<bar>n * 1000000\<bar> < 2 ^ (53 + 6)" using n0 small by simp
  have d2: "(2::int) ^ 6 dvd n * 1000000"
  proof -
    have "n * 1000000 = 2 ^ 6 * (n * 15625)" by simp
    then show ?thesis by (rule dvdI)
  qed
  have e2: "to_double (of_int (n * 1000000)) = of_int (n * 1000000)"
    by (rule to_double_exact [OF a2 d2])
  have o1: "\<not> overflows (of_int n)"
    by (rule small_not_overflows [OF _ e1]) (use a1 in simp)
  have o2: "\<not> overflows (of_int (n * 1000000))"
    by (rule small_not_overflows [OF _ e2]) (use a2 in simp)
  have f: "float_of_int n = Inr (of_int n)"
    using o1 e1 by (simp add: float_of_int_def)
  have m: "(of_int n :: rat) * 1000000 = of_int (n * 1000000)" by simp
  have r: "round_half_even (fmul (of_int n) 1000000) = n * 1000000"
    unfolding fmul_def m e2 by (rule round_half_even_of_int)
  show ?thesis
    using s n f o2 r unfolding micros_try_def m [symmetric]
    by (simp add: mult.commute)
qed

lemma micros_try_nonneg:
  assumes "micros_try max_digits raw = Inr v"
  shows "0 \<le> v"
proof -
  have rn: "0 \<le> round_half_even y" if "0 \<le> y" for y
  proof -
    from that have "0 \<le> \<lfloor>y\<rfloor>" by simp
    with round_half_even_ge_floor [of y] show ?thesis by linarith
  qed
  have "0 \<le> round_half_even (fmul (to_double (of_int k)) 1000000)" if "0 \<le> k" for k :: int
  proof -
    have "0 \<le> to_double (of_int k)" using that by (simp add: to_double_nonneg)
    then have "0 \<le> fmul (to_double (of_int k)) 1000000"
      by (simp add: fmul_def to_double_nonneg)
    then show ?thesis by (rule rn)
  qed
  then show ?thesis
    using assms parse_available_balance_nonneg
    by (auto simp: micros_try_def float_of_int_def split: sum.splits if_splits)
qed

lemma rounded_balance_parsed:
  "parse_available_balance 4300 (''available='' @ [CHR 0x27] @ ''1000000000001'' @ [CHR 0x27])
   = 1000000000001"
  by code_simp

lemma rounded_balance_micros:
  "parse_balance_to_micros 4300
     (RawObj (Inr (''available='' @ [CHR 0x27] @ ''1000000000001'' @ [CHR 0x27])))
   = 1000000000000999936"
  by code_simp

text \<open>
  C10, as stated, fails. The product is formed in floating point: for the balance
  string \<open>available='1000000000001'\<close> the function returns 1000000000000999936, which
  is 64 less than 1,000,000 times the parsed value.
\<close>

theorem micros_rounded_counterexample:
  "py_str (RawObj (Inr (''available='' @ [CHR 0x27] @ ''1000000000001'' @ [CHR 0x27])))
     = Inr (''available='' @ [CHR 0x27] @ ''1000000000001'' @ [CHR 0x27])
   \<and> parse_balance_to_micros 4300
       (RawObj (Inr (''available='' @ [CHR 0x27] @ ''1000000000001'' @ [CHR 0x27])))
     \<noteq> 1000000 * parse_available_balance 4300
         (''available='' @ [CHR 0x27] @ ''1000000000001'' @ [CHR 0x27])"
  using rounded_balance_parsed rounded_balance_micros by simp

text \<open>
  C10, amended. For every \<open>raw\<close> whose \<open>str\<close> succeeds, with
  \<open>n = parse_available_balance(str(raw))\<close>: \<open>n\<close> is a non-negative integer, namely 0
  when \<open>available='(\d+)'\<close> has no match and the value of the digits of the leftmost
  match when these are within the interpreter's limit on int digits;
  \<open>_parse_balance_to_micros(raw)\<close> is non-negative and equals exactly
  \<open>1,000,000 * n\<close> whenever \<open>15625 * n < 2^53\<close>; and when the \<open>try\<close> block fails,
  \<open>raw\<close> is not a number, so the branch \<open>int(round(raw))\<close> is not taken and the result
  is 0. The function is total: every exception is caught.
\<close>

theorem parse_balance_to_micros_exact_range:
  assumes "py_str raw = Inr s"
  shows "0 \<le> parse_available_balance max_digits s
         \<and> (re_search_available s = None \<longrightarrow> parse_available_balance max_digits s = 0)
         \<and> (\<forall>ds. re_search_available s = Some ds \<and> (max_digits = 0 \<or> length ds \<le> max_digits)
               \<longrightarrow> parse_available_balance max_digits s
                     = foldl (\<lambda>a c. 10 * a + (of_char c - 48)) 0 ds)
         \<and> 0 \<le> parse_balance_to_micros max_digits raw
         \<and> (parse_available_balance max_digits s * 15625 < 2 ^ 53
              \<longrightarrow> parse_balance_to_micros max_digits raw
                    = 1000000 * parse_available_balance max_digits s)
         \<and> (\<forall>e. micros_try max_digits raw = Inl e
               \<longrightarrow> (\<exists>r. raw = RawObj r) \<and> parse_balance_to_micros max_digits raw = 0)"
proof -
  have a: "0 \<le> parse_available_balance max_digits s"
    by (rule parse_available_balance_nonneg)
  have b: "re_search_available s = None \<longrightarrow> parse_available_balance max_digits s = 0"
    by (simp add: parse_available_balance_def)
  have c: "\<forall>ds. re_search_available s = Some ds \<and> (max_digits = 0 \<or> length ds \<le> max_digits)
               \<longrightarrow> parse_available_balance max_digits s
                     = foldl (\<lambda>a c. 10 * a + (of_char c - 48)) 0 ds"
    by (auto simp: parse_available_balance_def int_of_digits_def)
  have f: "\<forall>e. micros_try max_digits raw = Inl e
               \<longrightarrow> (\<exists>r. raw = RawObj r) \<and> parse_balance_to_micros max_digits raw = 0"
    by (cases raw) (simp_all add: micros_try_int parse_balance_to_micros_def)
  have d: "0 \<le> parse_balance_to_micros max_digits raw"
  proof (cases "micros_try max_digits raw")
    case (Inl e)
    with f show ?thesis by simp
  next
    case (Inr v)
    with micros_try_nonneg [OF Inr] show ?thesis by (simp add: parse_balance_to_micros_def)
  qed
  have e: "parse_available_balance max_digits s * 15625 < 2 ^ 53
              \<longrightarrow> parse_balance_to_micros max_digits raw
                    = 1000000 * parse_available_balance max_digits s"
    using micros_try_exact [OF assms refl] by (simp add: parse_balance_to_micros_def)
  from a b c d e f show ?thesis by blast
qed

lemma small_balance_parsed:
  "parse_available_balance 4300 (''available='' @ [CHR 0x27] @ ''2500000'' @ [CHR 0x27])
   = 2500000"
  by code_simp

lemma small_balance_search:
  "re_search_available (''available='' @ [CHR 0x27] @ ''2500000'' @ [CHR 0x27]) = Some ''2500000''"
  by code_simp

theorem parse_balance_to_micros_exact_range_witness:
  "py_str (RawObj (Inr (''available='' @ [CHR 0x27] @ ''2500000'' @ [CHR 0x27])))
     = Inr (''available='' @ [CHR 0x27] @ ''2500000'' @ [CHR 0x27])
   \<and> re_search_available (''available='' @ [CHR 0x27] @ ''2500000'' @ [CHR 0x27])
     = Some ''2500000''
   \<and> length ''2500000'' \<le> (4300::nat)
   \<and> parse_available_balance 4300 (''available='' @ [CHR 0x27] @ ''2500000'' @ [CHR 0x27])
       * 15625 < 2 ^ 53
   \<and> parse_balance_to_micros 4300
       (RawObj (Inr (''available='' @ [CHR 0x27] @ ''2500000'' @ [CHR 0x27])))
     = 2500000000000"
  using parse_balance_to_micros_exact_range [of
      "RawObj (Inr (''available='' @ [CHR 0x27] @ ''2500000'' @ [CHR 0x27]))"
      "''available='' @ [CHR 0x27] @ ''2500000'' @ [CHR 0x27]" 4300]
    small_balance_parsed small_balance_search
  by simp

end
